theory Spec2Isabelle
  imports Main
begin

section \<open>JavaScript values and promises\<close>

text \<open>
  The values that flow through \<^verbatim>\<open>DataStore.js\<close> and \<^verbatim>\<open>BaseStore.js\<close>: transport
  responses, rejection reasons and thrown errors. \<open>JError m ps\<close> is an \<^verbatim>\<open>Error\<close> object
  with message \<open>m\<close> and further own properties \<open>ps\<close> (\<^verbatim>\<open>new Error(m)\<close> has none);
  \<open>JTypeError\<close> is the \<^verbatim>\<open>TypeError\<close> the engine raises on a property read of
  \<^verbatim>\<open>undefined\<close> or \<^verbatim>\<open>null\<close>. Numbers are restricted to integers.
\<close>

datatype jsval =
    JUndefined
  | JNull
  | JBool bool
  | JNum int
  | JStr string
  | JArray "jsval list"
  | JObject "(string \<times> jsval) list"
  | JError string "(string \<times> jsval) list"
  | JTypeError

text \<open>Truthiness, as \<^verbatim>\<open>!x\<close> and \<^verbatim>\<open>x && y\<close> test it.\<close>

fun truthy :: "jsval \<Rightarrow> bool" where
  "truthy JUndefined = False"
| "truthy JNull = False"
| "truthy (JBool b) = b"
| "truthy (JNum n) = (n \<noteq> 0)"
| "truthy (JStr s) = (s \<noteq> [])"
| "truthy (JArray xs) = True"
| "truthy (JObject ps) = True"
| "truthy (JError m ps) = True"
| "truthy JTypeError = True"

text \<open>
  Modelled from the spec: \<^verbatim>\<open>isArray\<close> of \<^verbatim>\<open>../lib/check\<close> is not among the sources;
  the spec calls the test "response is a sequence".
\<close>

fun isArray :: "jsval \<Rightarrow> bool" where
  "isArray (JArray xs) = True"
| "isArray v = False"

text \<open>
  The member read \<^verbatim>\<open>e.httpStatusCode\<close>: it throws on \<^verbatim>\<open>undefined\<close> and \<^verbatim>\<open>null\<close>
  (\<open>Inl\<close> carries the thrown value), reads the own property of an object, and is
  \<^verbatim>\<open>undefined\<close> on every other value.
\<close>

fun httpStatusCode :: "jsval \<Rightarrow> jsval + jsval" where
  "httpStatusCode JUndefined = Inl JTypeError"
| "httpStatusCode JNull = Inl JTypeError"
| "httpStatusCode (JObject ps) =
     Inr (case map_of ps ''httpStatusCode'' of None \<Rightarrow> JUndefined | Some v \<Rightarrow> v)"
| "httpStatusCode (JError m ps) =
     Inr (case map_of ps ''httpStatusCode'' of None \<Rightarrow> JUndefined | Some v \<Rightarrow> v)"
| "httpStatusCode v = Inr JUndefined"

text \<open>Strict equality \<^verbatim>\<open>v === n\<close> against a number literal.\<close>

fun strict_eq_num :: "jsval \<Rightarrow> int \<Rightarrow> bool" where
  "strict_eq_num (JNum m) n = (m = n)"
| "strict_eq_num v n = False"

text \<open>\<^verbatim>\<open>xs.join(sep)\<close> on an array of strings.\<close>

fun array_join :: "string \<Rightarrow> string list \<Rightarrow> string" where
  "array_join sep [] = []"
| "array_join sep [x] = x"
| "array_join sep (x # y # ys) = x @ sep @ array_join sep (y # ys)"

text \<open>
  A promise is represented by how it settles; \<open>Pending\<close> is a promise that never does.
  A handler either returns a value (\<open>Inr\<close>) or throws one (\<open>Inl\<close>); the handlers of
  this code never return a thenable. \<open>then_p\<close> is \<^verbatim>\<open>p.then(f)\<close> and \<open>catch_p\<close> is
  \<^verbatim>\<open>p.catch(g)\<close>.
\<close>

datatype 'a promise = Pending | Fulfilled 'a | Rejected jsval

fun then_p :: "'a promise \<Rightarrow> ('a \<Rightarrow> jsval + 'b) \<Rightarrow> 'b promise" where
  "then_p Pending f = Pending"
| "then_p (Rejected e) f = Rejected e"
| "then_p (Fulfilled v) f = (case f v of Inl e \<Rightarrow> Rejected e | Inr y \<Rightarrow> Fulfilled y)"

fun catch_p :: "'a promise \<Rightarrow> (jsval \<Rightarrow> jsval + 'a) \<Rightarrow> 'a promise" where
  "catch_p Pending g = Pending"
| "catch_p (Fulfilled v) g = Fulfilled v"
| "catch_p (Rejected e) g = (case g e of Inl e' \<Rightarrow> Rejected e' | Inr y \<Rightarrow> Fulfilled y)"

fun is_rejected :: "'a promise \<Rightarrow> bool" where
  "is_rejected (Rejected e) = True"
| "is_rejected p = False"

section \<open>The transport\<close>

text \<open>
  The \<^verbatim>\<open>Api\<close> collaborator is a parameter: how it settles a read and a delete of a path.
  Every call made on it is appended to the world's trace.
\<close>

record Api =
  respond_get :: "string \<Rightarrow> jsval promise"
  respond_delete :: "string \<Rightarrow> jsval promise"

datatype api_call = ApiGet string | ApiDelete string

type_synonym world = "api_call list"

definition Api_get :: "Api \<Rightarrow> string \<Rightarrow> world \<Rightarrow> jsval promise \<times> world" where
  "Api_get a path w = (respond_get a path, w @ [ApiGet path])"

definition Api_delete :: "Api \<Rightarrow> string \<Rightarrow> world \<Rightarrow> jsval promise \<times> world" where
  "Api_delete a path w = (respond_delete a path, w @ [ApiDelete path])"

section \<open>DataStore\<close>

text \<open>
  Modelled from the spec: the class \<^verbatim>\<open>DataStoreNamespace\<close> is not among the sources. The
  spec fixes only its constructor contract: a namespace name and an optional key list.
  \<open>keys = None\<close> is the one-argument construction ("keys unknown"), \<open>keys = Some r\<close>
  the construction from a response \<open>r\<close> ("keys known").
\<close>

datatype DataStoreNamespace = DataStoreNamespace (namespace: string) (keys: "jsval option")

datatype DataStore = DataStore (endPoint: string) (api: Api)

text \<open>The constructor: \<^verbatim>\<open>constructor(api = Api.getApi())\<close>, with the default resolved.\<close>

definition new_DataStore :: "Api \<Rightarrow> DataStore" where
  "new_DataStore a = DataStore ''dataStore'' a"

definition new_Error :: "string \<Rightarrow> jsval" where
  "new_Error m = JError m []"

text \<open>
  \<^verbatim>\<open>get(namespace, autoLoad = true)\<close>. The default applies when the argument is
  \<^verbatim>\<open>undefined\<close>. The \<^verbatim>\<open>catch\<close> handler is chained after the \<^verbatim>\<open>then\<close> handler, so
  it also sees what the latter throws.
\<close>

definition DataStore_get ::
  "DataStore \<Rightarrow> string \<Rightarrow> jsval \<Rightarrow> world \<Rightarrow> DataStoreNamespace promise \<times> world" where
  "DataStore_get this ns autoLoad_arg w =
     (let autoLoad = (if autoLoad_arg = JUndefined then JBool True else autoLoad_arg) in
      if \<not> truthy autoLoad then (Fulfilled (DataStoreNamespace ns None), w)
      else
        (case Api_get (api this) (array_join ''/'' [endPoint this, ns]) w of
           (p, w') \<Rightarrow>
             (catch_p
                (then_p p (\<lambda>response.
                   if truthy response \<and> isArray response
                   then Inr (DataStoreNamespace ns (Some response))
                   else Inl (new_Error
                     ''The requested namespace has no keys or does not exist.'')))
                (\<lambda>e. case httpStatusCode e of
                        Inl t \<Rightarrow> Inl t
                      | Inr c \<Rightarrow>
                          if strict_eq_num c 404
                          then Inr (DataStoreNamespace ns None)
                          else Inl e),
              w')))"

definition DataStore_getAll :: "DataStore \<Rightarrow> world \<Rightarrow> jsval promise \<times> world" where
  "DataStore_getAll this w =
     (case Api_get (api this) (endPoint this) w of
        (p, w') \<Rightarrow>
          (then_p p (\<lambda>response.
             if truthy response \<and> isArray response
             then Inr response
             else Inl (new_Error ''No namespaces exist.'')),
           w'))"

definition DataStore_delete :: "DataStore \<Rightarrow> string \<Rightarrow> world \<Rightarrow> jsval promise \<times> world" where
  "DataStore_delete this ns w = Api_delete (api this) (array_join ''/'' [endPoint this, ns]) w"

section \<open>BaseStore\<close>

datatype BaseStore = BaseStore (bs_endPoint: string) (bs_api: Api)

text \<open>
  \<^verbatim>\<open>constructor(api = Api.getApi(), endPoint = 'dataStore')\<close>: the stored fields are the
  two arguments.
\<close>

definition new_BaseStore :: "Api \<Rightarrow> string \<Rightarrow> BaseStore" where
  "new_BaseStore a ep = BaseStore ep a"

text \<open>
  \<^verbatim>\<open>get\<close> of the abstract store throws synchronously: \<open>Inl\<close> is the thrown value, and no
  promise is made.
\<close>

definition BaseStore_get ::
  "BaseStore \<Rightarrow> string \<Rightarrow> jsval \<Rightarrow> world \<Rightarrow> (jsval + DataStoreNamespace promise) \<times> world" where
  "BaseStore_get this ns autoLoad_arg w = (Inl (new_Error ''Must be implemented by subclass.''), w)"

definition BaseStore_getAll :: "BaseStore \<Rightarrow> world \<Rightarrow> jsval promise \<times> world" where
  "BaseStore_getAll this w =
     (case Api_get (bs_api this) (bs_endPoint this) w of
        (p, w') \<Rightarrow>
          (then_p p (\<lambda>response.
             if truthy response \<and> isArray response
             then Inr response
             else Inl (new_Error ''No namespaces exist.'')),
           w'))"

definition BaseStore_delete :: "BaseStore \<Rightarrow> string \<Rightarrow> world \<Rightarrow> jsval promise \<times> world" where
  "BaseStore_delete this ns w =
     Api_delete (bs_api this) (array_join ''/'' [bs_endPoint this, ns]) w"

text \<open>Example transports: one that fulfils every call with \<open>v\<close>, one that rejects with \<open>e\<close>.\<close>

definition api_fulfils :: "jsval \<Rightarrow> Api" where
  "api_fulfils v = \<lparr>respond_get = (\<lambda>path. Fulfilled v), respond_delete = (\<lambda>path. Fulfilled v)\<rparr>"

definition api_rejects :: "jsval \<Rightarrow> Api" where
  "api_rejects e = \<lparr>respond_get = (\<lambda>path. Rejected e), respond_delete = (\<lambda>path. Rejected e)\<rparr>"

section \<open>The singleton accessor\<close>

text \<open>
  \<^verbatim>\<open>DataStore.getDataStore.dataStore\<close> is a slot on the static method: \<^verbatim>\<open>undefined\<close>
  (\<open>None\<close>) or a reference to a \<^verbatim>\<open>DataStore\<close> object. Objects have identity, so the
  module's state holds the \<^verbatim>\<open>DataStore\<close> objects allocated so far and a reference is an
  index into them. The state also carries the transport trace.
\<close>

record module_state =
  dataStore :: "nat option"
  instances :: "DataStore list"
  transport :: world

definition initial_state :: module_state where
  "initial_state = \<lparr>dataStore = None, instances = [], transport = []\<rparr>"

text \<open>
  \<^verbatim>\<open>static getDataStore()\<close>. \<open>getApi\<close> is what \<^verbatim>\<open>Api.getApi()\<close>, the constructor's
  default argument, returns.
\<close>

definition getDataStore :: "Api \<Rightarrow> module_state \<Rightarrow> nat \<times> module_state" where
  "getDataStore getApi s =
     (case dataStore s of
        None \<Rightarrow>
          (length (instances s),
           s\<lparr>instances := instances s @ [new_DataStore getApi],
             dataStore := Some (length (instances s))\<rparr>)
      | Some r \<Rightarrow> (r, s))"

text \<open>
  Everything the module offers: the static accessor, the constructor, and the three
  methods on an allocated object. A method call on a reference that was never
  allocated cannot be written in the source; it leaves the state as it is.
\<close>

datatype module_op =
    Op_getDataStore
  | Op_new Api
  | Op_get nat string jsval
  | Op_getAll nat
  | Op_delete nat string

fun exec :: "Api \<Rightarrow> module_op \<Rightarrow> module_state \<Rightarrow> module_state" where
  "exec getApi Op_getDataStore s = snd (getDataStore getApi s)"
| "exec getApi (Op_new a) s = s\<lparr>instances := instances s @ [new_DataStore a]\<rparr>"
| "exec getApi (Op_get r ns autoLoad_arg) s =
     (if r < length (instances s)
      then s\<lparr>transport := snd (DataStore_get (instances s ! r) ns autoLoad_arg (transport s))\<rparr>
      else s)"
| "exec getApi (Op_getAll r) s =
     (if r < length (instances s)
      then s\<lparr>transport := snd (DataStore_getAll (instances s ! r) (transport s))\<rparr>
      else s)"
| "exec getApi (Op_delete r ns) s =
     (if r < length (instances s)
      then s\<lparr>transport := snd (DataStore_delete (instances s ! r) ns (transport s))\<rparr>
      else s)"

definition run :: "Api \<Rightarrow> module_op list \<Rightarrow> module_state \<Rightarrow> module_state" where
  "run getApi ops s = fold (exec getApi) ops s"

section \<open>Filter\<close>

text \<open>
  Modelled from the spec: \<^verbatim>\<open>Filter.js\<close> and \<^verbatim>\<open>Filters.js\<close> are not among the sources;
  only the test suite of \<^verbatim>\<open>Filter\<close> is. The definitions of this section follow the
  spec's sections 3, 4.1 and 4.2, and agree with that test suite. Arguments are typed
  as the spec types them: a string, or nothing (\<open>None\<close>, the \<^verbatim>\<open>undefined\<close> of a call
  without argument).

  A \<^verbatim>\<open>Filter\<close> is a mutable object that its collection holds by reference, so filters
  and collections live in a store, addressed by numbers. The calls made on a
  collection are recorded in a trace.
\<close>

datatype filter_error = ValidationError string | IllegalStateError

record Filter =
  filters :: nat
  propertyName :: string
  comparator :: string
  filterValue :: "string option"

record 'r Filters =
  members :: "nat list"
  returnValue :: 'r

datatype filter_call = Call_add nat nat | Call_getReturn nat

record 'r filter_world =
  filterObjs :: "nat \<Rightarrow> Filter option"
  collections :: "nat \<Rightarrow> 'r Filters option"
  calls :: "filter_call list"

text \<open>Modelled from the spec: the state of a freshly constructed \<^verbatim>\<open>Filter\<close>.\<close>

definition new_Filter :: "nat \<Rightarrow> Filter" where
  "new_Filter c = \<lparr>filters = c, propertyName = ''name'', comparator = ''like'', filterValue = None\<rparr>"

text \<open>Modelled from the spec: the comparator methods the spec names, and their tokens.\<close>

datatype comparator_method = like | ilike | equals

fun comparator_token :: "comparator_method \<Rightarrow> string" where
  "comparator_token like = ''like''"
| "comparator_token ilike = ''ilike''"
| "comparator_token equals = ''eq''"

text \<open>
  Modelled from the spec: \<^verbatim>\<open>add(filter)\<close> "inserts/overwrites the filter by identity in
  the ordered collection", and \<^verbatim>\<open>getReturn()\<close> yields the collection's return value.
  \<open>None\<close> is a call on an address that holds no object, which no program can make.
\<close>

definition Filters_add :: "nat \<Rightarrow> nat \<Rightarrow> 'r filter_world \<Rightarrow> 'r filter_world option" where
  "Filters_add c f w =
     (case collections w c of
        None \<Rightarrow> None
      | Some col \<Rightarrow>
          Some (w\<lparr>collections := (collections w)
                     (c \<mapsto> col\<lparr>members :=
                        (if f \<in> set (members col) then members col else members col @ [f])\<rparr>),
                   calls := calls w @ [Call_add c f]\<rparr>))"

definition Filters_getReturn :: "nat \<Rightarrow> 'r filter_world \<Rightarrow> ('r \<times> 'r filter_world) option" where
  "Filters_getReturn c w =
     (case collections w c of
        None \<Rightarrow> None
      | Some col \<Rightarrow> Some (returnValue col, w\<lparr>calls := calls w @ [Call_getReturn c]\<rparr>))"

text \<open>
  Modelled from the spec: \<^verbatim>\<open>on(propertyName)\<close> fails with the validation error "when
  called with an empty/undefined argument", and otherwise sets the property name and
  returns the same instance.
\<close>

definition Filter_on ::
  "nat \<Rightarrow> string option \<Rightarrow> 'r filter_world \<Rightarrow> ((filter_error + nat) \<times> 'r filter_world) option" where
  "Filter_on this arg w =
     (case filterObjs w this of
        None \<Rightarrow> None
      | Some flt \<Rightarrow>
          (case arg of
             None \<Rightarrow>
               Some (Inl (ValidationError ''Property name to filter on should be provided''), w)
           | Some p \<Rightarrow>
               if p = []
               then Some (Inl (ValidationError ''Property name to filter on should be provided''), w)
               else Some (Inr this,
                          w\<lparr>filterObjs := (filterObjs w)(this \<mapsto> flt\<lparr>propertyName := p\<rparr>)\<rparr>)))"

text \<open>
  Modelled from the spec: a comparator method fails with the validation error "when
  the argument is empty/undefined; on success [it sets] comparator to the method's
  associated token and filterValue to the argument, then commit[s] this Filter into
  its owning collection [...] and return[s] the collection's current return-value".
\<close>

definition Filter_comparator_method ::
  "comparator_method \<Rightarrow> nat \<Rightarrow> string option \<Rightarrow> 'r filter_world
     \<Rightarrow> ((filter_error + 'r) \<times> 'r filter_world) option" where
  "Filter_comparator_method m this arg w =
     (case filterObjs w this of
        None \<Rightarrow> None
      | Some flt \<Rightarrow>
          (case arg of
             None \<Rightarrow> Some (Inl (ValidationError ''filterValue should be provided''), w)
           | Some v \<Rightarrow>
               if v = []
               then Some (Inl (ValidationError ''filterValue should be provided''), w)
               else
                 (case Filters_add (filters flt) this
                         (w\<lparr>filterObjs := (filterObjs w)
                              (this \<mapsto> flt\<lparr>comparator := comparator_token m,
                                             filterValue := Some v\<rparr>)\<rparr>) of
                    None \<Rightarrow> None
                  | Some w2 \<Rightarrow>
                      (case Filters_getReturn (filters flt) w2 of
                         None \<Rightarrow> None
                       | Some (rv, w3) \<Rightarrow> Some (Inr rv, w3)))))"

text \<open>
  Modelled from the spec: \<^verbatim>\<open>getQueryParamFormat()\<close> "returns
  "{propertyName}:{comparatorToken}:{filterValue}"", and before a comparator method
  has run "implementers should fail fast with an IllegalStateError".
\<close>

definition Filter_getQueryParamFormat ::
  "nat \<Rightarrow> 'r filter_world \<Rightarrow> (filter_error + string) option" where
  "Filter_getQueryParamFormat this w =
     (case filterObjs w this of
        None \<Rightarrow> None
      | Some flt \<Rightarrow>
          (case filterValue flt of
             None \<Rightarrow> Some (Inl IllegalStateError)
           | Some v \<Rightarrow> Some (Inr (array_join '':'' [propertyName flt, comparator flt, v]))))"

text \<open>An example world: filter 0, freshly constructed, bound to the empty collection 0.\<close>

definition example_world :: "string filter_world" where
  "example_world =
     \<lparr>filterObjs = Map.empty(0 \<mapsto> new_Filter 0),
      collections = Map.empty(0 \<mapsto> \<lparr>members = [], returnValue = ''modelDefinition''\<rparr>),
      calls = []\<rparr>"

section \<open>Properties of DataStore.get\<close>

lemma isArray_truthy: "isArray r \<Longrightarrow> truthy r"
  by (cases r) simp_all

lemma truthy_isArray: "(truthy r \<and> isArray r) = isArray r"
  using isArray_truthy by blast

lemma DataStore_get_autoLoad:
  "DataStore_get this ns (JBool True) w =
     (catch_p
        (then_p (respond_get (api this) (endPoint this @ ''/'' @ ns)) (\<lambda>response.
           if isArray response
           then Inr (DataStoreNamespace ns (Some response))
           else Inl (new_Error ''The requested namespace has no keys or does not exist.'')))
        (\<lambda>e. case httpStatusCode e of
                Inl t \<Rightarrow> Inl t
              | Inr c \<Rightarrow>
                  if strict_eq_num c 404 then Inr (DataStoreNamespace ns None) else Inl e),
      w @ [ApiGet (endPoint this @ ''/'' @ ns)])"
  by (simp add: DataStore_get_def Api_get_def truthy_isArray)

text \<open>
  C6: with \<^verbatim>\<open>autoLoad = false\<close>, \<^verbatim>\<open>get\<close> resolves with an accessor for the namespace
  built without a key list, and the transport trace is unchanged (no call is made);
  the promise is therefore never rejected.
\<close>

theorem DataStore_get_no_autoLoad:
  "DataStore_get this ns (JBool False) w = (Fulfilled (DataStoreNamespace ns None), w)"
  by (simp add: DataStore_get_def)

lemma strict_eq_num_iff: "strict_eq_num c n = (c = JNum n)"
  by (cases c) auto

lemma DataStore_get_rejected_transport:
  assumes "respond_get (api this) (endPoint this @ ''/'' @ ns) = Rejected e"
  shows "fst (DataStore_get this ns (JBool True) w) =
     (case httpStatusCode e of
        Inl t \<Rightarrow> Rejected t
      | Inr c \<Rightarrow> if c = JNum 404 then Fulfilled (DataStoreNamespace ns None) else Rejected e)"
  using assms
  by (simp add: DataStore_get_autoLoad strict_eq_num_iff split: sum.split)

lemma DataStore_get_fulfilled_transport:
  assumes "respond_get (api this) (endPoint this @ ''/'' @ ns) = Fulfilled r"
  shows "fst (DataStore_get this ns (JBool True) w) =
     (if isArray r then Fulfilled (DataStoreNamespace ns (Some r))
      else Rejected (JError ''The requested namespace has no keys or does not exist.'' []))"
  using assms
  by (simp add: DataStore_get_autoLoad new_Error_def)

lemma DataStore_get_pending_transport:
  assumes "respond_get (api this) (endPoint this @ ''/'' @ ns) = Pending"
  shows "fst (DataStore_get this ns (JBool True) w) = Pending"
  using assms
  by (simp add: DataStore_get_autoLoad)

text \<open>
  C1, as stated, fails: \<^verbatim>\<open>get\<close> also rejects when the transport read succeeds with a
  response that is not a sequence. Here the transport fulfils with the object \<^verbatim>\<open>{}\<close>.
\<close>

theorem DataStore_get_rejects_without_transport_failure:
  "is_rejected (fst (DataStore_get (new_DataStore (api_fulfils (JObject []))) ''ns'' (JBool True) []))
   \<and> \<not> is_rejected (respond_get (api (new_DataStore (api_fulfils (JObject [])))) ''dataStore/ns'')"
  by (simp add: DataStore_get_autoLoad new_DataStore_def api_fulfils_def new_Error_def)

text \<open>
  C1, amended: \<^verbatim>\<open>get(ns, true)\<close> rejects if and only if the transport read fails with a
  condition whose \<^verbatim>\<open>httpStatusCode\<close> is not 404, or the transport read fulfils with a
  response that is not a sequence. A rejection whose \<^verbatim>\<open>httpStatusCode\<close> is 404 is
  recovered into a resolved promise holding the accessor built from \<open>ns\<close> alone; a
  rejection with an error object whose \<^verbatim>\<open>httpStatusCode\<close> is anything else is passed on
  as the same value.
\<close>

theorem DataStore_get_transport_failure:
  "(\<forall>e. respond_get (api this) (endPoint this @ ''/'' @ ns) = Rejected e
          \<and> httpStatusCode e = Inr (JNum 404)
        \<longrightarrow> fst (DataStore_get this ns (JBool True) w) = Fulfilled (DataStoreNamespace ns None))
   \<and> (\<forall>e c. respond_get (api this) (endPoint this @ ''/'' @ ns) = Rejected e
          \<and> httpStatusCode e = Inr c \<and> c \<noteq> JNum 404
        \<longrightarrow> fst (DataStore_get this ns (JBool True) w) = Rejected e)
   \<and> (is_rejected (fst (DataStore_get this ns (JBool True) w)) \<longleftrightarrow>
        (\<exists>e. respond_get (api this) (endPoint this @ ''/'' @ ns) = Rejected e
             \<and> httpStatusCode e \<noteq> Inr (JNum 404))
      \<or> (\<exists>r. respond_get (api this) (endPoint this @ ''/'' @ ns) = Fulfilled r
             \<and> \<not> isArray r))"
proof (intro conjI allI impI)
  fix e
  assume "respond_get (api this) (endPoint this @ ''/'' @ ns) = Rejected e
    \<and> httpStatusCode e = Inr (JNum 404)"
  then show "fst (DataStore_get this ns (JBool True) w) = Fulfilled (DataStoreNamespace ns None)"
    by (simp add: DataStore_get_rejected_transport)
next
  fix e c
  assume "respond_get (api this) (endPoint this @ ''/'' @ ns) = Rejected e
    \<and> httpStatusCode e = Inr c \<and> c \<noteq> JNum 404"
  then show "fst (DataStore_get this ns (JBool True) w) = Rejected e"
    by (simp add: DataStore_get_rejected_transport)
next
  show "is_rejected (fst (DataStore_get this ns (JBool True) w)) \<longleftrightarrow>
        (\<exists>e. respond_get (api this) (endPoint this @ ''/'' @ ns) = Rejected e
             \<and> httpStatusCode e \<noteq> Inr (JNum 404))
      \<or> (\<exists>r. respond_get (api this) (endPoint this @ ''/'' @ ns) = Fulfilled r
             \<and> \<not> isArray r)"
  proof (cases "respond_get (api this) (endPoint this @ ''/'' @ ns)")
    case Pending
    then show ?thesis
      by (simp add: DataStore_get_pending_transport)
  next
    case (Fulfilled r)
    then show ?thesis
      by (simp add: DataStore_get_fulfilled_transport)
  next
    case (Rejected e)
    then show ?thesis
      by (auto simp add: DataStore_get_rejected_transport split: sum.splits)
  qed
qed

theorem DataStore_get_transport_failure_witness:
  "fst (DataStore_get (new_DataStore (api_rejects (JObject [(''httpStatusCode'', JNum 404)])))
          ''ns'' (JBool True) [])
     = Fulfilled (DataStoreNamespace ''ns'' None)
   \<and> fst (DataStore_get (new_DataStore (api_rejects (JObject [(''httpStatusCode'', JNum 500)])))
          ''ns'' (JBool True) [])
     = Rejected (JObject [(''httpStatusCode'', JNum 500)])"
proof -
  let ?e404 = "JObject [(''httpStatusCode'', JNum 404)]"
  let ?e500 = "JObject [(''httpStatusCode'', JNum 500)]"
  have a: "respond_get (api (new_DataStore (api_rejects ?e404)))
             (endPoint (new_DataStore (api_rejects ?e404)) @ ''/'' @ ''ns'') = Rejected ?e404
           \<and> httpStatusCode ?e404 = Inr (JNum 404)"
    by (simp add: new_DataStore_def api_rejects_def)
  have b: "respond_get (api (new_DataStore (api_rejects ?e500)))
             (endPoint (new_DataStore (api_rejects ?e500)) @ ''/'' @ ''ns'') = Rejected ?e500
           \<and> httpStatusCode ?e500 = Inr (JNum 500) \<and> JNum 500 \<noteq> JNum 404"
    by (simp add: new_DataStore_def api_rejects_def)
  from a b show ?thesis
    using DataStore_get_transport_failure
            [of "new_DataStore (api_rejects ?e404)" "''ns''" "[]"]
          DataStore_get_transport_failure
            [of "new_DataStore (api_rejects ?e500)" "''ns''" "[]"]
    by blast
qed

text \<open>
  C2: when the transport read fulfils with a sequence, \<^verbatim>\<open>get(ns, true)\<close> resolves with
  the accessor built from \<open>ns\<close> and that sequence, after exactly one read of
  \<^verbatim>\<open>{endPoint}/{ns}\<close>; when it fulfils with anything that is not a sequence, the promise
  rejects with an \<^verbatim>\<open>Error\<close> whose message is "The requested namespace has no keys or
  does not exist.".
\<close>

theorem DataStore_get_fulfilled_response:
  "(\<forall>ks. respond_get (api this) (endPoint this @ ''/'' @ ns) = Fulfilled (JArray ks)
        \<longrightarrow> DataStore_get this ns (JBool True) w =
              (Fulfilled (DataStoreNamespace ns (Some (JArray ks))),
               w @ [ApiGet (endPoint this @ ''/'' @ ns)]))
   \<and> (\<forall>r. respond_get (api this) (endPoint this @ ''/'' @ ns) = Fulfilled r \<and> \<not> isArray r
        \<longrightarrow> fst (DataStore_get this ns (JBool True) w) =
              Rejected (JError ''The requested namespace has no keys or does not exist.'' []))"
  by (simp add: DataStore_get_autoLoad new_Error_def)

theorem DataStore_get_fulfilled_response_witness:
  "DataStore_get (new_DataStore (api_fulfils (JArray [JStr ''k1'', JStr ''k2'']))) ''ns''
       (JBool True) []
     = (Fulfilled (DataStoreNamespace ''ns'' (Some (JArray [JStr ''k1'', JStr ''k2'']))),
        [ApiGet ''dataStore/ns''])
   \<and> fst (DataStore_get (new_DataStore (api_fulfils (JObject [(''a'', JNum 1)]))) ''ns''
       (JBool True) [])
     = Rejected (JError ''The requested namespace has no keys or does not exist.'' [])"
proof -
  let ?ks = "[JStr ''k1'', JStr ''k2'']"
  let ?obj = "JObject [(''a'', JNum 1)]"
  have a: "respond_get (api (new_DataStore (api_fulfils (JArray ?ks))))
             (endPoint (new_DataStore (api_fulfils (JArray ?ks))) @ ''/'' @ ''ns'')
           = Fulfilled (JArray ?ks)"
    by (simp add: new_DataStore_def api_fulfils_def)
  have b: "respond_get (api (new_DataStore (api_fulfils ?obj)))
             (endPoint (new_DataStore (api_fulfils ?obj)) @ ''/'' @ ''ns'')
           = Fulfilled ?obj \<and> \<not> isArray ?obj"
    by (simp add: new_DataStore_def api_fulfils_def)
  have c: "endPoint (new_DataStore (api_fulfils (JArray ?ks))) @ ''/'' @ ''ns'' = ''dataStore/ns''"
    by (simp add: new_DataStore_def)
  from a b c show ?thesis
    using DataStore_get_fulfilled_response
            [of "new_DataStore (api_fulfils (JArray ?ks))" "''ns''" "[]"]
          DataStore_get_fulfilled_response
            [of "new_DataStore (api_fulfils ?obj)" "''ns''" "[]"]
    by (metis append_Nil)
qed

text \<open>
  C10: when the transport read fulfils with the empty sequence, \<^verbatim>\<open>get(ns, true)\<close>
  resolves with the accessor built from \<open>ns\<close> and that empty sequence. It is not
  rejected, and the accessor is not the one built from \<open>ns\<close> alone, which is what a
  read rejected with status 404 (on a store \<open>that\<close>) resolves with.
\<close>

theorem DataStore_get_empty_sequence:
  assumes "respond_get (api this) (endPoint this @ ''/'' @ ns) = Fulfilled (JArray [])"
    and "respond_get (api that) (endPoint that @ ''/'' @ ns) = Rejected e"
    and "httpStatusCode e = Inr (JNum 404)"
  shows "fst (DataStore_get this ns (JBool True) w) =
           Fulfilled (DataStoreNamespace ns (Some (JArray [])))
     \<and> \<not> is_rejected (fst (DataStore_get this ns (JBool True) w))
     \<and> fst (DataStore_get this ns (JBool True) w) \<noteq> Fulfilled (DataStoreNamespace ns None)
     \<and> fst (DataStore_get that ns (JBool True) w) = Fulfilled (DataStoreNamespace ns None)
     \<and> fst (DataStore_get this ns (JBool True) w) \<noteq> fst (DataStore_get that ns (JBool True) w)"
proof -
  have known: "fst (DataStore_get this ns (JBool True) w) =
      Fulfilled (DataStoreNamespace ns (Some (JArray [])))"
    using assms(1) by (simp add: DataStore_get_fulfilled_transport)
  have unknown: "fst (DataStore_get that ns (JBool True) w) =
      Fulfilled (DataStoreNamespace ns None)"
    using assms(2,3) by (simp add: DataStore_get_rejected_transport)
  show ?thesis
    by (simp add: known unknown)
qed

theorem DataStore_get_empty_sequence_witness:
  "fst (DataStore_get (new_DataStore (api_fulfils (JArray []))) ''ns'' (JBool True) [])
     = Fulfilled (DataStoreNamespace ''ns'' (Some (JArray [])))
   \<and> fst (DataStore_get (new_DataStore (api_rejects (JObject [(''httpStatusCode'', JNum 404)])))
        ''ns'' (JBool True) [])
     = Fulfilled (DataStoreNamespace ''ns'' None)"
proof -
  let ?e404 = "JObject [(''httpStatusCode'', JNum 404)]"
  have a: "respond_get (api (new_DataStore (api_fulfils (JArray []))))
             (endPoint (new_DataStore (api_fulfils (JArray []))) @ ''/'' @ ''ns'')
           = Fulfilled (JArray [])"
    by (simp add: new_DataStore_def api_fulfils_def)
  have b: "respond_get (api (new_DataStore (api_rejects ?e404)))
             (endPoint (new_DataStore (api_rejects ?e404)) @ ''/'' @ ''ns'') = Rejected ?e404"
    by (simp add: new_DataStore_def api_rejects_def)
  have c: "httpStatusCode ?e404 = Inr (JNum 404)"
    by simp
  show ?thesis
    using DataStore_get_empty_sequence [OF a b c, of "[]"] by simp
qed

section \<open>Properties of getAll and of the abstract get\<close>

lemma getAll_handler:
  "then_p p (\<lambda>response.
       if truthy response \<and> isArray response
       then Inr response
       else Inl (new_Error ''No namespaces exist.'')) =
   (case p of
      Pending \<Rightarrow> Pending
    | Fulfilled r \<Rightarrow>
        if isArray r then Fulfilled r else Rejected (JError ''No namespaces exist.'' [])
    | Rejected e \<Rightarrow> Rejected e)"
  by (cases p) (simp_all add: truthy_isArray new_Error_def)

text \<open>
  C3: \<^verbatim>\<open>getAll()\<close>, of \<^verbatim>\<open>DataStore\<close> and of \<^verbatim>\<open>BaseStore\<close> alike, reads
  \<^verbatim>\<open>{endPoint}\<close> once; it resolves with the response itself when the response is a
  sequence, rejects with an \<^verbatim>\<open>Error\<close> whose message is "No namespaces exist." for every
  other fulfilled response (an absent one included), and passes every transport
  rejection on as it is, a not-found one too.
\<close>

theorem getAll_response:
  "(\<forall>r. respond_get (api this) (endPoint this) = Fulfilled r \<and> isArray r
        \<longrightarrow> DataStore_getAll this w = (Fulfilled r, w @ [ApiGet (endPoint this)]))
   \<and> (\<forall>r. respond_get (api this) (endPoint this) = Fulfilled r \<and> \<not> isArray r
        \<longrightarrow> DataStore_getAll this w =
              (Rejected (JError ''No namespaces exist.'' []), w @ [ApiGet (endPoint this)]))
   \<and> (\<forall>e. respond_get (api this) (endPoint this) = Rejected e
        \<longrightarrow> DataStore_getAll this w = (Rejected e, w @ [ApiGet (endPoint this)]))
   \<and> (\<forall>r. respond_get (bs_api base) (bs_endPoint base) = Fulfilled r \<and> isArray r
        \<longrightarrow> BaseStore_getAll base w = (Fulfilled r, w @ [ApiGet (bs_endPoint base)]))
   \<and> (\<forall>r. respond_get (bs_api base) (bs_endPoint base) = Fulfilled r \<and> \<not> isArray r
        \<longrightarrow> BaseStore_getAll base w =
              (Rejected (JError ''No namespaces exist.'' []), w @ [ApiGet (bs_endPoint base)]))
   \<and> (\<forall>e. respond_get (bs_api base) (bs_endPoint base) = Rejected e
        \<longrightarrow> BaseStore_getAll base w = (Rejected e, w @ [ApiGet (bs_endPoint base)]))"
  by (simp add: DataStore_getAll_def BaseStore_getAll_def Api_get_def getAll_handler)

theorem getAll_response_witness:
  "DataStore_getAll (new_DataStore (api_fulfils (JArray [JStr ''a'', JStr ''b'']))) []
     = (Fulfilled (JArray [JStr ''a'', JStr ''b'']), [ApiGet ''dataStore''])
   \<and> DataStore_getAll (new_DataStore (api_fulfils JUndefined)) []
     = (Rejected (JError ''No namespaces exist.'' []), [ApiGet ''dataStore''])
   \<and> DataStore_getAll (new_DataStore (api_rejects (JObject [(''httpStatusCode'', JNum 404)]))) []
     = (Rejected (JObject [(''httpStatusCode'', JNum 404)]), [ApiGet ''dataStore''])
   \<and> BaseStore_getAll (new_BaseStore (api_fulfils (JObject [])) ''userDataStore'') []
     = (Rejected (JError ''No namespaces exist.'' []), [ApiGet ''userDataStore''])"
proof -
  let ?arr = "JArray [JStr ''a'', JStr ''b'']"
  let ?e404 = "JObject [(''httpStatusCode'', JNum 404)]"
  have a: "respond_get (api (new_DataStore (api_fulfils ?arr)))
             (endPoint (new_DataStore (api_fulfils ?arr))) = Fulfilled ?arr \<and> isArray ?arr"
    by (simp add: new_DataStore_def api_fulfils_def)
  have b: "respond_get (api (new_DataStore (api_fulfils JUndefined)))
             (endPoint (new_DataStore (api_fulfils JUndefined))) = Fulfilled JUndefined
           \<and> \<not> isArray JUndefined"
    by (simp add: new_DataStore_def api_fulfils_def)
  have c: "respond_get (api (new_DataStore (api_rejects ?e404)))
             (endPoint (new_DataStore (api_rejects ?e404))) = Rejected ?e404"
    by (simp add: new_DataStore_def api_rejects_def)
  have d: "respond_get (bs_api (new_BaseStore (api_fulfils (JObject [])) ''userDataStore''))
             (bs_endPoint (new_BaseStore (api_fulfils (JObject [])) ''userDataStore''))
           = Fulfilled (JObject []) \<and> \<not> isArray (JObject [])"
    by (simp add: new_BaseStore_def api_fulfils_def)
  have ep: "endPoint (new_DataStore (api_fulfils ?arr)) = ''dataStore''"
    "endPoint (new_DataStore (api_fulfils JUndefined)) = ''dataStore''"
    "endPoint (new_DataStore (api_rejects ?e404)) = ''dataStore''"
    "bs_endPoint (new_BaseStore (api_fulfils (JObject [])) ''userDataStore'') = ''userDataStore''"
    by (simp_all add: new_DataStore_def new_BaseStore_def)
  show ?thesis
    using a b c d
      getAll_response [of "new_DataStore (api_fulfils ?arr)" "[]"]
      getAll_response [of "new_DataStore (api_fulfils JUndefined)" "[]"]
      getAll_response [of "new_DataStore (api_rejects ?e404)" "[]"]
      getAll_response [of _ "[]" "new_BaseStore (api_fulfils (JObject [])) ''userDataStore''"]
    unfolding ep
    by (metis append_Nil)
qed

text \<open>
  C9: \<^verbatim>\<open>get\<close> of the abstract base store throws an \<^verbatim>\<open>Error\<close> with the message "Must be
  implemented by subclass." for every namespace and every \<^verbatim>\<open>autoLoad\<close> argument; it
  returns no promise and the transport trace is what it was.
\<close>

theorem BaseStore_get_not_implemented:
  "BaseStore_get this ns autoLoad_arg w =
     (Inl (JError ''Must be implemented by subclass.'' []), w)"
  by (simp add: BaseStore_get_def new_Error_def)

section \<open>Properties of the singleton accessor\<close>

lemma getDataStore_set:
  "dataStore s = Some r \<Longrightarrow> getDataStore d s = (r, s)"
  by (simp add: getDataStore_def)

lemma exec_keeps_slot:
  assumes "dataStore s = Some r" and "r < length (instances s)"
  shows "dataStore (exec d op s) = Some r \<and> r < length (instances (exec d op s))
         \<and> instances (exec d op s) ! r = instances s ! r"
  using assms
  by (cases op) (simp_all add: getDataStore_def nth_append)

lemma run_keeps_slot:
  assumes "dataStore s = Some r" and "r < length (instances s)"
  shows "dataStore (run d ops s) = Some r \<and> r < length (instances (run d ops s))
         \<and> instances (run d ops s) ! r = instances s ! r"
  using assms
proof (induction ops arbitrary: s)
  case Nil
  then show ?case by (simp add: run_def)
next
  case (Cons op ops)
  have step: "dataStore (exec d op s) = Some r \<and> r < length (instances (exec d op s))
         \<and> instances (exec d op s) ! r = instances s ! r"
    using Cons.prems by (rule exec_keeps_slot)
  have "run d (op # ops) s = run d ops (exec d op s)"
    by (simp add: run_def)
  with Cons.IH [of "exec d op s"] step show ?case
    by simp
qed

lemma getDataStore_first:
  assumes "dataStore s = None"
  shows "getDataStore d s =
     (length (instances s),
      s\<lparr>instances := instances s @ [new_DataStore d], dataStore := Some (length (instances s))\<rparr>)"
  using assms by (simp add: getDataStore_def)

text \<open>
  C8: on a state whose slot is empty, \<^verbatim>\<open>getDataStore()\<close> allocates exactly one
  \<^verbatim>\<open>DataStore\<close>, at a fresh reference (the index past every object allocated
  before), and returns that reference and stores it in the slot. After any further
  sequence of the module's operations it returns that same reference without
  changing the state (so nothing more is constructed), the object at the reference
  is the one first constructed, and the slot still holds the reference: no operation
  resets it.
\<close>

theorem getDataStore_singleton:
  assumes "dataStore s = None"
    and "getDataStore d s = (r, s1)"
    and "s2 = run d ops s1"
  shows "r = length (instances s)
     \<and> instances s1 = instances s @ [new_DataStore d]
     \<and> dataStore s1 = Some r
     \<and> instances s1 ! r = new_DataStore d
     \<and> getDataStore d s2 = (r, s2)
     \<and> instances s2 ! r = instances s1 ! r
     \<and> dataStore s2 = Some r"
proof -
  from assms(1,2) have r: "r = length (instances s)"
    and s1: "s1 = s\<lparr>instances := instances s @ [new_DataStore d],
                     dataStore := Some (length (instances s))\<rparr>"
    by (auto simp add: getDataStore_first)
  have slot: "dataStore s1 = Some r" and inb: "r < length (instances s1)"
    by (simp_all add: r s1)
  have keep: "dataStore s2 = Some r \<and> r < length (instances s2)
      \<and> instances s2 ! r = instances s1 ! r"
    unfolding assms(3) using slot inb by (rule run_keeps_slot)
  show ?thesis
    using keep slot by (simp add: getDataStore_set) (simp add: r s1)
qed

text \<open>
  An instance, on a state that already holds a \<^verbatim>\<open>DataStore\<close> constructed directly with
  the same transport, equal in value to the one the accessor constructs: the
  accessor's reference is the fresh one, 1, not 0.
\<close>

theorem getDataStore_singleton_witness:
  "getDataStore (api_fulfils JNull)
     (run (api_fulfils JNull)
        [Op_getDataStore, Op_new (api_rejects JNull), Op_get 0 ''ns'' JUndefined,
         Op_getAll 1, Op_delete 0 ''ns'', Op_getDataStore]
        (snd (getDataStore (api_fulfils JNull)
           (initial_state\<lparr>instances := [new_DataStore (api_fulfils JNull)]\<rparr>))))
   = (1, run (api_fulfils JNull)
        [Op_getDataStore, Op_new (api_rejects JNull), Op_get 0 ''ns'' JUndefined,
         Op_getAll 1, Op_delete 0 ''ns'', Op_getDataStore]
        (snd (getDataStore (api_fulfils JNull)
           (initial_state\<lparr>instances := [new_DataStore (api_fulfils JNull)]\<rparr>))))
   \<and> fst (getDataStore (api_fulfils JNull)
        (initial_state\<lparr>instances := [new_DataStore (api_fulfils JNull)]\<rparr>)) = 1
   \<and> instances (snd (getDataStore (api_fulfils JNull)
        (initial_state\<lparr>instances := [new_DataStore (api_fulfils JNull)]\<rparr>)))
       = [new_DataStore (api_fulfils JNull), new_DataStore (api_fulfils JNull)]"
proof -
  let ?s = "initial_state\<lparr>instances := [new_DataStore (api_fulfils JNull)]\<rparr>"
  have a: "dataStore ?s = None"
    by (simp add: initial_state_def)
  have b: "getDataStore (api_fulfils JNull) ?s
      = (fst (getDataStore (api_fulfils JNull) ?s), snd (getDataStore (api_fulfils JNull) ?s))"
    by simp
  have c: "instances ?s = [new_DataStore (api_fulfils JNull)]"
    by simp
  show ?thesis
    using getDataStore_singleton [OF a b refl] c by simp
qed

section \<open>Properties of Filter\<close>

text \<open>
  C5: for every non-empty string \<open>p\<close>, \<^verbatim>\<open>filter.on(p)\<close> sets the filter's property name
  to \<open>p\<close>, changes nothing else, and returns the same filter; with an empty or an
  absent argument it fails with the validation error "Property name to filter on
  should be provided" and the world, the property name included, is as before.
\<close>

theorem Filter_on_sets_propertyName:
  assumes "filterObjs w this = Some flt"
  shows "(p \<noteq> [] \<longrightarrow>
           Filter_on this (Some p) w =
             Some (Inr this, w\<lparr>filterObjs := (filterObjs w)(this \<mapsto> flt\<lparr>propertyName := p\<rparr>)\<rparr>))
     \<and> Filter_on this (Some []) w =
           Some (Inl (ValidationError ''Property name to filter on should be provided''), w)
     \<and> Filter_on this None w =
           Some (Inl (ValidationError ''Property name to filter on should be provided''), w)"
  using assms by (simp add: Filter_on_def)

theorem Filter_on_sets_propertyName_witness:
  "Filter_on 0 (Some ''year'') example_world =
      Some (Inr 0, example_world\<lparr>filterObjs :=
         (filterObjs example_world)(0 \<mapsto> (new_Filter 0)\<lparr>propertyName := ''year''\<rparr>)\<rparr>)
   \<and> Filter_on 0 None example_world =
      Some (Inl (ValidationError ''Property name to filter on should be provided''), example_world)"
proof -
  have a: "filterObjs example_world 0 = Some (new_Filter 0)"
    by (simp add: example_world_def)
  show ?thesis
    using Filter_on_sets_propertyName [OF a, of "''year''"] by simp
qed

lemma Filter_comparator_method_provided:
  assumes "filterObjs w this = Some flt"
    and "collections w (filters flt) = Some col"
    and "v \<noteq> []"
  shows "Filter_comparator_method m this (Some v) w =
     Some (Inr (returnValue col),
       w\<lparr>filterObjs := (filterObjs w)
            (this \<mapsto> flt\<lparr>comparator := comparator_token m, filterValue := Some v\<rparr>),
         collections := (collections w)
            (filters flt \<mapsto> col\<lparr>members :=
               (if this \<in> set (members col) then members col else members col @ [this])\<rparr>),
         calls := calls w @ [Call_add (filters flt) this, Call_getReturn (filters flt)]\<rparr>)"
  using assms
  by (simp add: Filter_comparator_method_def Filters_add_def Filters_getReturn_def)

text \<open>
  C4: for every non-empty string \<open>v\<close>, a comparator method called with \<open>v\<close> sets the
  filter's comparator to the method's token (\<open>eq\<close> for \<open>equals\<close>) and its filter value
  to \<open>v\<close>, makes exactly one \<^verbatim>\<open>add\<close> call on the owning collection, with the filter
  itself as argument, followed by one \<^verbatim>\<open>getReturn\<close> call, and returns the collection's
  return value; with an empty or an absent argument it fails with the validation
  error "filterValue should be provided" and the world is as before: nothing was
  set and nothing was registered.
\<close>

theorem Filter_comparator_commits:
  assumes "filterObjs w this = Some flt"
    and "collections w (filters flt) = Some col"
  shows "(v \<noteq> [] \<longrightarrow>
           (\<exists>w'. Filter_comparator_method m this (Some v) w = Some (Inr (returnValue col), w')
              \<and> filterObjs w' this =
                  Some (flt\<lparr>comparator := comparator_token m, filterValue := Some v\<rparr>)
              \<and> calls w' = calls w @ [Call_add (filters flt) this, Call_getReturn (filters flt)]
              \<and> (\<exists>col'. collections w' (filters flt) = Some col'
                    \<and> this \<in> set (members col') \<and> returnValue col' = returnValue col)))
     \<and> comparator_token equals = ''eq''
     \<and> Filter_comparator_method m this (Some []) w =
           Some (Inl (ValidationError ''filterValue should be provided''), w)
     \<and> Filter_comparator_method m this None w =
           Some (Inl (ValidationError ''filterValue should be provided''), w)"
proof (intro conjI impI)
  assume "v \<noteq> []"
  with assms show "\<exists>w'. Filter_comparator_method m this (Some v) w = Some (Inr (returnValue col), w')
              \<and> filterObjs w' this =
                  Some (flt\<lparr>comparator := comparator_token m, filterValue := Some v\<rparr>)
              \<and> calls w' = calls w @ [Call_add (filters flt) this, Call_getReturn (filters flt)]
              \<and> (\<exists>col'. collections w' (filters flt) = Some col'
                    \<and> this \<in> set (members col') \<and> returnValue col' = returnValue col)"
    by (simp add: Filter_comparator_method_provided)
next
  show "comparator_token equals = ''eq''" by simp
next
  from assms(1) show "Filter_comparator_method m this (Some []) w =
           Some (Inl (ValidationError ''filterValue should be provided''), w)"
    by (simp add: Filter_comparator_method_def)
next
  from assms(1) show "Filter_comparator_method m this None w =
           Some (Inl (ValidationError ''filterValue should be provided''), w)"
    by (simp add: Filter_comparator_method_def)
qed


theorem Filter_comparator_commits_witness:
  "(\<exists>w'. Filter_comparator_method equals 0 (Some ''ANC'') example_world
            = Some (Inr ''modelDefinition'', w')
         \<and> filterObjs w' 0 = Some ((new_Filter 0)\<lparr>comparator := ''eq'', filterValue := Some ''ANC''\<rparr>)
         \<and> calls w' = [Call_add 0 0, Call_getReturn 0])
   \<and> Filter_comparator_method equals 0 None example_world
        = Some (Inl (ValidationError ''filterValue should be provided''), example_world)"
proof -
  have a: "filterObjs example_world 0 = Some (new_Filter 0)"
    by (simp add: example_world_def)
  have b: "collections example_world (filters (new_Filter 0))
      = Some \<lparr>members = [], returnValue = ''modelDefinition''\<rparr>"
    by (simp add: example_world_def new_Filter_def)
  have c: "calls example_world = []" "filters (new_Filter 0) = 0" "''ANC'' \<noteq> []"
    by (simp_all add: example_world_def new_Filter_def)
  show ?thesis
    using Filter_comparator_commits [OF a b, of "''ANC''" equals] c by auto
qed

lemma Filter_getQueryParamFormat_fields:
  assumes "filterObjs w this = Some flt" and "filterValue flt = Some v"
  shows "Filter_getQueryParamFormat this w =
     Some (Inr (propertyName flt @ '':'' @ comparator flt @ '':'' @ v))"
  using assms by (simp add: Filter_getQueryParamFormat_def)

text \<open>
  C7: after a comparator method has run on a filter, \<^verbatim>\<open>getQueryParamFormat()\<close> returns
  the filter's property name, the comparator token and the filter value, joined by
  colons; \<^verbatim>\<open>filter.on('code').equals('Partner_343')\<close> followed by
  \<^verbatim>\<open>getQueryParamFormat()\<close> gives \<open>code:eq:Partner_343\<close>.
\<close>

theorem getQueryParamFormat_after_comparator:
  assumes "filterObjs w this = Some flt"
    and "Filter_comparator_method m this (Some v) w = Some (Inr rv, w')"
  shows "Filter_getQueryParamFormat this w' =
           Some (Inr (propertyName flt @ '':'' @ comparator_token m @ '':'' @ v))
     \<and> (\<exists>flt' fv. filterObjs w' this = Some flt' \<and> filterValue flt' = Some fv
           \<and> Filter_getQueryParamFormat this w' =
               Some (Inr (propertyName flt' @ '':'' @ comparator flt' @ '':'' @ fv)))
     \<and> (case Filter_on 0 (Some ''code'') example_world of
          Some (Inr f, w1) \<Rightarrow>
            (case Filter_comparator_method equals f (Some ''Partner_343'') w1 of
               Some (Inr r, w2) \<Rightarrow>
                 Filter_getQueryParamFormat f w2 = Some (Inr ''code:eq:Partner_343'')
             | _ \<Rightarrow> False)
        | _ \<Rightarrow> False)"
proof (intro conjI)
  have post: "filterObjs w' this =
      Some (flt\<lparr>comparator := comparator_token m, filterValue := Some v\<rparr>)"
    using assms
    by (auto simp add: Filter_comparator_method_def Filters_add_def Filters_getReturn_def
          split: option.splits if_splits)
  show fmt: "Filter_getQueryParamFormat this w' =
      Some (Inr (propertyName flt @ '':'' @ comparator_token m @ '':'' @ v))"
    using Filter_getQueryParamFormat_fields [OF post] by simp
  show "\<exists>flt' fv. filterObjs w' this = Some flt' \<and> filterValue flt' = Some fv
           \<and> Filter_getQueryParamFormat this w' =
               Some (Inr (propertyName flt' @ '':'' @ comparator flt' @ '':'' @ fv))"
    using post fmt by simp
  show "case Filter_on 0 (Some ''code'') example_world of
          Some (Inr f, w1) \<Rightarrow>
            (case Filter_comparator_method equals f (Some ''Partner_343'') w1 of
               Some (Inr r, w2) \<Rightarrow>
                 Filter_getQueryParamFormat f w2 = Some (Inr ''code:eq:Partner_343'')
             | _ \<Rightarrow> False)
        | _ \<Rightarrow> False"
    by (simp add: Filter_on_def Filter_comparator_method_def Filters_add_def
          Filters_getReturn_def Filter_getQueryParamFormat_def example_world_def new_Filter_def)
qed

theorem getQueryParamFormat_after_comparator_witness:
  "Filter_getQueryParamFormat 0
     (example_world\<lparr>filterObjs := (filterObjs example_world)
          (0 \<mapsto> (new_Filter 0)\<lparr>comparator := comparator_token ilike, filterValue := Some ''ANC''\<rparr>),
        collections := (collections example_world)
          (0 \<mapsto> \<lparr>members = [0], returnValue = ''modelDefinition''\<rparr>),
        calls := [Call_add 0 0, Call_getReturn 0]\<rparr>)
   = Some (Inr ''name:ilike:ANC'')"
proof -
  have a: "filterObjs example_world 0 = Some (new_Filter 0)"
    by (simp add: example_world_def)
  have b: "collections example_world (filters (new_Filter 0))
      = Some \<lparr>members = [], returnValue = ''modelDefinition''\<rparr>"
    by (simp add: example_world_def new_Filter_def)
  have c: "Filter_comparator_method ilike 0 (Some ''ANC'') example_world =
     Some (Inr ''modelDefinition'',
       example_world\<lparr>filterObjs := (filterObjs example_world)
          (0 \<mapsto> (new_Filter 0)\<lparr>comparator := comparator_token ilike, filterValue := Some ''ANC''\<rparr>),
        collections := (collections example_world)
          (0 \<mapsto> \<lparr>members = [0], returnValue = ''modelDefinition''\<rparr>),
        calls := [Call_add 0 0, Call_getReturn 0]\<rparr>)"
    using Filter_comparator_method_provided [OF a b, of "''ANC''" ilike]
    by (simp add: new_Filter_def example_world_def)
  have d: "propertyName (new_Filter 0) = ''name''"
    by (simp add: new_Filter_def)
  show ?thesis
    using getQueryParamFormat_after_comparator [OF a c] d by simp
qed

end
